theory Spec2Isabelle
  imports Main
begin

section \<open>JavaScript values read and written by the moderation hook\<close>

text \<open>
  The hook of \<^verbatim>\<open>frontend/src/hooks/useModeration.js\<close> handles loosely typed
  data: responses of the remote moderation service, rejection values, option objects.
  They are modelled as JSON-like values. Numbers are the integers (a response cannot
  carry NaN, and every other number is truthy exactly when it is not zero). An object
  is the list of its own properties.
\<close>

datatype jsval =
    JUndefined
  | JNull
  | JBool bool
  | JNum int
  | JStr string
  | JArr "jsval list"
  | JObj "(string \<times> jsval) list"

text \<open>The truthiness test behind \<^verbatim>\<open>if (v)\<close>, \<^verbatim>\<open>a || b\<close> and \<^verbatim>\<open>filter\<close>.\<close>

fun truthy :: "jsval \<Rightarrow> bool" where
  "truthy JUndefined = False"
| "truthy JNull = False"
| "truthy (JBool b) = b"
| "truthy (JNum n) = (n \<noteq> 0)"
| "truthy (JStr s) = (s \<noteq> [])"
| "truthy (JArr xs) = True"
| "truthy (JObj kvs) = True"

fun nullish :: "jsval \<Rightarrow> bool" where
  "nullish JUndefined = True"
| "nullish JNull = True"
| "nullish v = False"

text \<open>\<^verbatim>\<open>a || b\<close> and \<^verbatim>\<open>a ?? b\<close>.\<close>

definition js_or :: "jsval \<Rightarrow> jsval \<Rightarrow> jsval" where
  "js_or a b = (if truthy a then a else b)"

definition js_coalesce :: "jsval \<Rightarrow> jsval \<Rightarrow> jsval" where
  "js_coalesce a b = (if nullish a then b else a)"

text \<open>
  Reading a property of a value that is neither null nor undefined. The hook reads only
  the names data, items, appeals, success, message, response, status, page, limit,
  category, priority, contentType, reason and sortBy; no built-in prototype defines
  any of them, so only an object can answer with something else than undefined.
\<close>

fun own_prop :: "jsval \<Rightarrow> string \<Rightarrow> jsval" where
  "own_prop (JObj kvs) k = (case map_of kvs k of None \<Rightarrow> JUndefined | Some v \<Rightarrow> v)"
| "own_prop v k = JUndefined"

text \<open>Optional chaining \<^verbatim>\<open>v?.k\<close>.\<close>

definition opt_get :: "jsval \<Rightarrow> string \<Rightarrow> jsval" where
  "opt_get v k = (if nullish v then JUndefined else own_prop v k)"

text \<open>
  The TypeError that \<^verbatim>\<open>v.k\<close> throws on null and undefined. The text of its
  message is the engine's; it is never empty.
\<close>

definition type_error :: "string \<Rightarrow> jsval" where
  "type_error k =
     JObj [(''name'', JStr ''TypeError''),
           (''message'', JStr (''Cannot read properties of null or undefined, reading '' @ k))]"

text \<open>\<^verbatim>\<open>Array.isArray(list) ? list.filter((r) => r?.success).length : 0\<close>\<close>

fun successCount :: "jsval \<Rightarrow> nat" where
  "successCount (JArr rs) = length (filter (\<lambda>r. truthy (opt_get r ''success'')) rs)"
| "successCount v = 0"

text \<open>A count as a template literal prints it: decimal digits.\<close>

definition digit_char :: "nat \<Rightarrow> char" where
  "digit_char d =
     (if d = 0 then CHR ''0'' else if d = 1 then CHR ''1'' else if d = 2 then CHR ''2''
      else if d = 3 then CHR ''3'' else if d = 4 then CHR ''4'' else if d = 5 then CHR ''5''
      else if d = 6 then CHR ''6'' else if d = 7 then CHR ''7'' else if d = 8 then CHR ''8''
      else CHR ''9'')"

fun string_of_nat :: "nat \<Rightarrow> string" where
  "string_of_nat n =
     (if n < 10 then [digit_char n]
      else string_of_nat (n div 10) @ [digit_char (n mod 10)])"

declare string_of_nat.simps [simp del]

section \<open>The hook's state, its effects and the remote service\<close>

text \<open>
  Every effect of an operation is an event, in the order the code performs it: a write
  to one of the six \<^verbatim>\<open>useState\<close> cells, a call of \<^verbatim>\<open>moderationApi\<close>
  with its arguments, and a toast. \<open>GetQueue\<close> carries the pairs appended to the
  \<^verbatim>\<open>URLSearchParams\<close>, in order, with the values as passed to \<^verbatim>\<open>append\<close>
  (their serialisation by \<^verbatim>\<open>toString\<close> is the platform's).
\<close>

datatype event =
    SetQueue jsval
  | SetAppeals jsval
  | SetFilters jsval
  | SetStatistics jsval
  | SetLoading bool
  | SetError jsval
  | GetQueue "(string \<times> jsval) list"
  | Analyze jsval
  | TakeAction jsval jsval
  | BulkAction jsval
  | GetAppeals jsval
  | SubmitAppeal jsval
  | GetFilters jsval
  | CreateFilter jsval
  | GetStatistics jsval
  | ToastSuccess jsval
  | ToastError jsval

record hook =
  queue :: jsval
  appeals :: jsval
  filters :: jsval
  statistics :: jsval
  loading :: bool
  error :: jsval
  trace :: "event list"

text \<open>The state of a freshly mounted hook: the initial values of \<^verbatim>\<open>useState\<close>.\<close>

definition initial :: hook where
  "initial = \<lparr>queue = JArr [], appeals = JArr [], filters = JObj [], statistics = JNull,
     loading = False, error = JNull, trace = []\<rparr>"

text \<open>
  \<^verbatim>\<open>moderationApi\<close> is imported from \<^verbatim>\<open>../api/endpoints\<close>, which is not part of
  the sources: it is a parameter. A call settles: its promise resolves with a response
  or rejects with a reason. The outcome of a call is given by the endpoint and the
  arguments; no operation calls the same endpoint twice, so within one operation this
  leaves the service free to answer each call as it likes.
\<close>

datatype outcome = Resolve jsval | Reject jsval

record api =
  api_getQueue :: "(string \<times> jsval) list \<Rightarrow> outcome"
  api_analyze :: "jsval \<Rightarrow> outcome"
  api_takeAction :: "jsval \<Rightarrow> jsval \<Rightarrow> outcome"
  api_bulkAction :: "jsval \<Rightarrow> outcome"
  api_getAppeals :: "jsval \<Rightarrow> outcome"
  api_submitAppeal :: "jsval \<Rightarrow> outcome"
  api_getFilters :: "jsval \<Rightarrow> outcome"
  api_createFilter :: "jsval \<Rightarrow> outcome"
  api_getStatistics :: "jsval \<Rightarrow> outcome"

text \<open>
  A piece of the hook's code runs on the state and either completes with a value
  (\<open>Inr\<close>) or throws one (\<open>Inl\<close>); for an \<^verbatim>\<open>async\<close> function these are the
  resolution and the rejection of the promise it returns. An operation is followed from
  its call to its return on its own: what other operations do to the state while it
  awaits is outside this model.
\<close>

type_synonym 'a prog = "hook \<Rightarrow> (jsval + 'a) \<times> hook"

definition ret :: "'a \<Rightarrow> 'a prog" where
  "ret v = (\<lambda>s. (Inr v, s))"

definition throw :: "jsval \<Rightarrow> 'a prog" where
  "throw e = (\<lambda>s. (Inl e, s))"

definition bind :: "'a prog \<Rightarrow> ('a \<Rightarrow> 'b prog) \<Rightarrow> 'b prog" where
  "bind m f = (\<lambda>s. case m s of (Inl e, s') \<Rightarrow> (Inl e, s') | (Inr v, s') \<Rightarrow> f v s')"

definition seq :: "'a prog \<Rightarrow> 'b prog \<Rightarrow> 'b prog" where
  "seq m n = bind m (\<lambda>_. n)"

text \<open>
  \<^verbatim>\<open>try { body } catch (err) { handler } finally { fin }\<close>, where \<open>fin\<close> has no
  \<^verbatim>\<open>return\<close> of its own: it runs last on both paths and keeps the result, unless it
  throws.
\<close>

definition try_catch_finally :: "'a prog \<Rightarrow> (jsval \<Rightarrow> 'a prog) \<Rightarrow> unit prog \<Rightarrow> 'a prog" where
  "try_catch_finally body handler fin =
     (\<lambda>s. case (case body s of (Inl e, s1) \<Rightarrow> handler e s1 | (Inr v, s1) \<Rightarrow> (Inr v, s1)) of
             (r, s2) \<Rightarrow> (case fin s2 of (Inl e', s3) \<Rightarrow> (Inl e', s3) | (Inr u, s3) \<Rightarrow> (r, s3)))"

definition emit :: "event \<Rightarrow> hook \<Rightarrow> hook" where
  "emit ev s = s\<lparr>trace := trace s @ [ev]\<rparr>"

definition setQueue :: "jsval \<Rightarrow> unit prog" where
  "setQueue v = (\<lambda>s. (Inr (), emit (SetQueue v) (s\<lparr>queue := v\<rparr>)))"

definition setAppeals :: "jsval \<Rightarrow> unit prog" where
  "setAppeals v = (\<lambda>s. (Inr (), emit (SetAppeals v) (s\<lparr>appeals := v\<rparr>)))"

definition setFilters :: "jsval \<Rightarrow> unit prog" where
  "setFilters v = (\<lambda>s. (Inr (), emit (SetFilters v) (s\<lparr>filters := v\<rparr>)))"

definition setStatistics :: "jsval \<Rightarrow> unit prog" where
  "setStatistics v = (\<lambda>s. (Inr (), emit (SetStatistics v) (s\<lparr>statistics := v\<rparr>)))"

definition setLoading :: "bool \<Rightarrow> unit prog" where
  "setLoading b = (\<lambda>s. (Inr (), emit (SetLoading b) (s\<lparr>loading := b\<rparr>)))"

definition setError :: "jsval \<Rightarrow> unit prog" where
  "setError v = (\<lambda>s. (Inr (), emit (SetError v) (s\<lparr>error := v\<rparr>)))"

definition toast_success :: "jsval \<Rightarrow> unit prog" where
  "toast_success m = (\<lambda>s. (Inr (), emit (ToastSuccess m) s))"

definition toast_error :: "jsval \<Rightarrow> unit prog" where
  "toast_error m = (\<lambda>s. (Inr (), emit (ToastError m) s))"

text \<open>\<^verbatim>\<open>await moderationApi.f(args)\<close>: the call is made, then its outcome is met.\<close>

definition await :: "event \<Rightarrow> outcome \<Rightarrow> jsval prog" where
  "await call out =
     (\<lambda>s. case out of Resolve v \<Rightarrow> (Inr v, emit call s) | Reject e \<Rightarrow> (Inl e, emit call s))"

text \<open>\<^verbatim>\<open>v.k\<close>: throws on null and undefined.\<close>

definition get_prop :: "jsval \<Rightarrow> string \<Rightarrow> jsval prog" where
  "get_prop v k = (if nullish v then throw (type_error k) else ret (own_prop v k))"

text \<open>A parameter with a default value takes it when the argument is undefined.\<close>

definition default_arg :: "jsval \<Rightarrow> jsval \<Rightarrow> jsval" where
  "default_arg v d = (if v = JUndefined then d else v)"

section \<open>The dispatcher operations of \<^verbatim>\<open>useModeration\<close>\<close>

text \<open>
  \<^verbatim>\<open>if (options.k) params.append(k, options.k)\<close>: one step of the query built by
  \<^verbatim>\<open>fetchQueue\<close>.
\<close>

definition append_param :: "jsval \<Rightarrow> string \<Rightarrow> (string \<times> jsval) list \<Rightarrow> (string \<times> jsval) list prog" where
  "append_param options k params =
     bind (get_prop options k) (\<lambda>v. ret (if truthy v then params @ [(k, v)] else params))"

definition build_params :: "jsval \<Rightarrow> (string \<times> jsval) list prog" where
  "build_params options =
     bind (append_param options ''status'' []) (\<lambda>p1.
     bind (append_param options ''page'' p1) (\<lambda>p2.
     bind (append_param options ''limit'' p2) (\<lambda>p3.
     bind (append_param options ''category'' p3) (\<lambda>p4.
     append_param options ''priority'' p4))))"

definition fetchQueue :: "api \<Rightarrow> jsval \<Rightarrow> jsval prog" where
  "fetchQueue remote options0 =
     (let options = default_arg options0 (JObj []) in
      seq (setLoading True)
     (seq (setError JNull)
     (try_catch_finally
        (bind (build_params options) (\<lambda>params.
         bind (await (GetQueue params) (api_getQueue remote params)) (\<lambda>response.
         seq (setQueue (js_or (opt_get (opt_get (opt_get response ''data'') ''data'') ''items'')
                          (JArr [])))
             (get_prop response ''data''))))
        (\<lambda>err.
         seq (setError (js_or (opt_get err ''message'') (JStr ''Unknown error'')))
        (seq (toast_error (JStr ''Failed to fetch moderation queue''))
             (ret JNull)))
        (setLoading False))))"

definition analyzeContent :: "api \<Rightarrow> jsval \<Rightarrow> jsval prog" where
  "analyzeContent remote content =
     seq (setLoading True)
     (try_catch_finally
        (bind (await (Analyze content) (api_analyze remote content)) (\<lambda>response.
         ret (opt_get (opt_get response ''data'') ''data'')))
        (\<lambda>err.
         seq (toast_error (JStr ''Content analysis failed''))
             (ret JNull))
        (setLoading False))"

text \<open>
  \<^verbatim>\<open>takeAction(queueItemId, action, reason, notes = "")\<close>. The action is a string:
  the success toast prints it between double quotes.
\<close>

definition takeAction :: "api \<Rightarrow> jsval \<Rightarrow> string \<Rightarrow> jsval \<Rightarrow> jsval \<Rightarrow> jsval prog" where
  "takeAction remote queueItemId action reason notes0 =
     (let notes = default_arg notes0 (JStr [])
      in
      seq (setLoading True)
     (try_catch_finally
        (bind (await (TakeAction queueItemId
                        (JObj [(''action'', JStr action), (''reason'', reason), (''notes'', notes)]))
                 (api_takeAction remote queueItemId
                        (JObj [(''action'', JStr action), (''reason'', reason), (''notes'', notes)])))
           (\<lambda>response.
         seq (toast_success (JStr (''Action '' @ [CHR 0x22] @ action @ [CHR 0x22] @ '' completed'')))
        (seq (fetchQueue remote JUndefined)
             (get_prop response ''data''))))
        (\<lambda>err.
         seq (toast_error (JStr ''Failed to take action''))
             (ret JNull))
        (setLoading False)))"

text \<open>
  \<^verbatim>\<open>bulkAction(itemIds, action, reason)\<close>. The ids are an array (the hook reads its
  \<^verbatim>\<open>length\<close>); the model takes its elements.
\<close>

definition bulkAction :: "api \<Rightarrow> jsval list \<Rightarrow> jsval \<Rightarrow> jsval \<Rightarrow> jsval prog" where
  "bulkAction remote itemIds action reason =
     seq (setLoading True)
     (try_catch_finally
        (bind (await (BulkAction
                        (JObj [(''itemIds'', JArr itemIds), (''action'', action), (''reason'', reason)]))
                 (api_bulkAction remote
                        (JObj [(''itemIds'', JArr itemIds), (''action'', action), (''reason'', reason)])))
           (\<lambda>response.
         (let list = js_or (opt_get (opt_get response ''data'') ''data'') (JArr [])
          in
         seq (toast_success (JStr (''Bulk action completed: '' @ string_of_nat (successCount list)
                  @ ''/'' @ string_of_nat (length itemIds) @ '' items'')))
        (seq (fetchQueue remote JUndefined)
             (get_prop response ''data'')))))
        (\<lambda>err.
         seq (toast_error (JStr ''Bulk action failed''))
             (ret JNull))
        (setLoading False))"

definition fetchAppeals :: "api \<Rightarrow> jsval \<Rightarrow> jsval prog" where
  "fetchAppeals remote options0 =
     (let options = default_arg options0 (JObj []) in
      seq (setLoading True)
     (try_catch_finally
        (bind (await (GetAppeals options) (api_getAppeals remote options)) (\<lambda>response.
         seq (setAppeals (js_or (opt_get (opt_get (opt_get response ''data'') ''data'') ''appeals'')
                            (JArr [])))
             (get_prop response ''data'')))
        (\<lambda>err.
         seq (toast_error (JStr ''Failed to fetch appeals''))
             (ret JNull))
        (setLoading False)))"

definition submitAppeal :: "api \<Rightarrow> jsval \<Rightarrow> jsval \<Rightarrow> jsval \<Rightarrow> jsval prog" where
  "submitAppeal remote actionId reason evidence0 =
     (let evidence = default_arg evidence0 (JArr [])
      in
      seq (setLoading True)
     (try_catch_finally
        (bind (await (SubmitAppeal
                        (JObj [(''actionId'', actionId), (''reason'', reason), (''evidence'', evidence)]))
                 (api_submitAppeal remote
                        (JObj [(''actionId'', actionId), (''reason'', reason), (''evidence'', evidence)])))
           (\<lambda>response.
         seq (toast_success (JStr ''Appeal submitted successfully''))
             (get_prop response ''data'')))
        (\<lambda>err.
         seq (toast_error (js_or (opt_get (opt_get (opt_get err ''response'') ''data'') ''message'')
                             (JStr ''Failed to submit appeal'')))
             (ret JNull))
        (setLoading False)))"

definition fetchFilters :: "api \<Rightarrow> jsval \<Rightarrow> jsval prog" where
  "fetchFilters remote options0 =
     (let options = default_arg options0 (JObj []) in
      seq (setLoading True)
     (try_catch_finally
        (bind (await (GetFilters options) (api_getFilters remote options)) (\<lambda>response.
         seq (setFilters (js_or (opt_get (opt_get response ''data'') ''data'') (JObj [])))
             (get_prop response ''data'')))
        (\<lambda>err.
         seq (toast_error (JStr ''Failed to fetch filters''))
             (ret JNull))
        (setLoading False)))"

definition createFilter :: "api \<Rightarrow> jsval \<Rightarrow> jsval prog" where
  "createFilter remote filterData =
     seq (setLoading True)
     (try_catch_finally
        (bind (await (CreateFilter filterData) (api_createFilter remote filterData)) (\<lambda>response.
         seq (toast_success (JStr ''Filter created successfully''))
        (seq (fetchFilters remote JUndefined)
             (get_prop response ''data''))))
        (\<lambda>err.
         seq (toast_error (JStr ''Failed to create filter''))
             (ret JNull))
        (setLoading False))"

definition fetchStatistics :: "api \<Rightarrow> jsval \<Rightarrow> jsval \<Rightarrow> jsval prog" where
  "fetchStatistics remote startDate endDate =
     seq (setLoading True)
     (try_catch_finally
        (bind (await (GetStatistics (JObj [(''startDate'', startDate), (''endDate'', endDate)]))
                 (api_getStatistics remote (JObj [(''startDate'', startDate), (''endDate'', endDate)])))
           (\<lambda>response.
         seq (setStatistics (js_or (opt_get (opt_get response ''data'') ''data'') JNull))
             (get_prop response ''data'')))
        (\<lambda>err.
         seq (toast_error (JStr ''Failed to fetch statistics''))
             (ret JNull))
        (setLoading False))"

section \<open>The report-listing adapter \<^verbatim>\<open>useReports\<close>\<close>

record report_filters =
  status :: jsval
  contentType :: jsval
  reason :: jsval
  sortBy :: jsval

record pagination =
  hasMore :: bool

record reports_view =
  reports :: jsval
  view_loading :: bool
  view_filters :: report_filters
  view_pagination :: pagination

text \<open>The data fields of the object \<^verbatim>\<open>useReports\<close> returns, read off the hook's state.\<close>

definition useReports :: "hook \<Rightarrow> reports_view" where
  "useReports m =
     \<lparr>reports = js_or (queue m) (JArr []),
      view_loading = loading m,
      view_filters =
        \<lparr>status = js_coalesce (opt_get (filters m) ''status'') (JStr ''all''),
         contentType = js_coalesce (opt_get (filters m) ''contentType'') (JStr ''all''),
         reason = js_coalesce (opt_get (filters m) ''reason'') (JStr ''all''),
         sortBy = js_coalesce (opt_get (filters m) ''sortBy'') (JStr ''recent'')\<rparr>,
      view_pagination = \<lparr>hasMore = False\<rparr>\<rparr>"

text \<open>
  Its handlers. \<^verbatim>\<open>applyFilters\<close> binds its argument to an unused constant,
  \<^verbatim>\<open>clearFilters\<close> and \<^verbatim>\<open>loadMore\<close> have empty bodies, \<^verbatim>\<open>refresh\<close> awaits
  \<^verbatim>\<open>m.fetchQueue?.()\<close> and returns nothing.
\<close>

definition applyFilters :: "jsval \<Rightarrow> unit prog" where
  "applyFilters nextFilters0 = (let nextFilters = default_arg nextFilters0 (JObj []) in ret ())"

definition clearFilters :: "unit prog" where
  "clearFilters = ret ()"

definition loadMore :: "unit prog" where
  "loadMore = ret ()"

definition refresh :: "api \<Rightarrow> unit prog" where
  "refresh remote = seq (fetchQueue remote JUndefined) (ret ())"

section \<open>Readings of the trace, and two remote services to run the hook against\<close>

text \<open>The number of queue fetches: the calls of \<^verbatim>\<open>moderationApi.getQueue\<close>.\<close>

fun is_GetQueue :: "event \<Rightarrow> bool" where
  "is_GetQueue (GetQueue q) = True"
| "is_GetQueue ev = False"

definition fetch_count :: "event list \<Rightarrow> nat" where
  "fetch_count tr = length (filter is_GetQueue tr)"

fun is_ToastError :: "event \<Rightarrow> bool" where
  "is_ToastError (ToastError m) = True"
| "is_ToastError ev = False"

fun is_SetError :: "event \<Rightarrow> bool" where
  "is_SetError (SetError v) = True"
| "is_SetError ev = False"

text \<open>A service whose every call rejects with the same reason, and one that answers.\<close>

definition failing :: "jsval \<Rightarrow> api" where
  "failing e =
     \<lparr>api_getQueue = (\<lambda>q. Reject e), api_analyze = (\<lambda>c. Reject e),
      api_takeAction = (\<lambda>i p. Reject e), api_bulkAction = (\<lambda>p. Reject e),
      api_getAppeals = (\<lambda>p. Reject e), api_submitAppeal = (\<lambda>p. Reject e),
      api_getFilters = (\<lambda>p. Reject e), api_createFilter = (\<lambda>p. Reject e),
      api_getStatistics = (\<lambda>p. Reject e)\<rparr>"

definition answering :: "jsval \<Rightarrow> api" where
  "answering r =
     \<lparr>api_getQueue = (\<lambda>q. Resolve r), api_analyze = (\<lambda>c. Resolve r),
      api_takeAction = (\<lambda>i p. Resolve r), api_bulkAction = (\<lambda>p. Resolve r),
      api_getAppeals = (\<lambda>p. Resolve r), api_submitAppeal = (\<lambda>p. Resolve r),
      api_getFilters = (\<lambda>p. Resolve r), api_createFilter = (\<lambda>p. Resolve r),
      api_getStatistics = (\<lambda>p. Resolve r)\<rparr>"

fun is_ToastSuccess :: "event \<Rightarrow> bool" where
  "is_ToastSuccess (ToastSuccess m) = True"
| "is_ToastSuccess ev = False"

text \<open>
  What a run from \<open>s\<close> to \<open>s'\<close> added to the trace, and the shape of a run that
  raises the busy flag first and lowers it last.
\<close>

definition emitted :: "hook \<Rightarrow> hook \<Rightarrow> event list" where
  "emitted s s' = drop (length (trace s)) (trace s')"

fun busy_bracket :: "event list \<Rightarrow> bool" where
  "busy_bracket [] = False"
| "busy_bracket (ev # tr) = (ev = SetLoading True \<and> tr \<noteq> [] \<and> last tr = SetLoading False)"

text \<open>The calls of the remote service among the events.\<close>

fun is_call :: "event \<Rightarrow> bool" where
  "is_call (GetQueue q) = True"
| "is_call (Analyze c) = True"
| "is_call (TakeAction i p) = True"
| "is_call (BulkAction p) = True"
| "is_call (GetAppeals p) = True"
| "is_call (SubmitAppeal p) = True"
| "is_call (GetFilters p) = True"
| "is_call (CreateFilter p) = True"
| "is_call (GetStatistics p) = True"
| "is_call ev = False"

text \<open>
  Replaying a trace from a value of the busy flag: is the flag up at every call of the
  remote service?
\<close>

fun busy_at_calls :: "bool \<Rightarrow> event list \<Rightarrow> bool" where
  "busy_at_calls b [] = True"
| "busy_at_calls b (SetLoading b' # tr) = busy_at_calls b' tr"
| "busy_at_calls b (ev # tr) = (if is_call ev then b \<and> busy_at_calls b tr else busy_at_calls b tr)"

text \<open>
  A run from \<open>s\<close> to \<open>s'\<close> that only adds to the trace, raises the busy flag first,
  calls the remote service only while it is up, lowers it last and leaves it down.
\<close>

definition busy_run :: "hook \<Rightarrow> hook \<Rightarrow> bool" where
  "busy_run s s' =
     (trace s' = trace s @ emitted s s' \<and> busy_bracket (emitted s s')
      \<and> busy_at_calls (loading s) (emitted s s') \<and> loading s' = False)"

definition notified_failure :: "hook \<Rightarrow> hook \<Rightarrow> bool" where
  "notified_failure s s' = list_ex is_ToastError (emitted s s')"

fun is_array :: "jsval \<Rightarrow> bool" where
  "is_array (JArr xs) = True"
| "is_array v = False"

definition network_error :: jsval where
  "network_error = JObj [(''message'', JStr ''Network Error'')]"

section \<open>How the operations run\<close>

lemmas prog_defs = ret_def throw_def bind_def seq_def try_catch_finally_def emit_def
  setQueue_def setAppeals_def setFilters_def setStatistics_def setLoading_def setError_def
  toast_success_def toast_error_def await_def get_prop_def

lemma truthy_js_or: "truthy b \<Longrightarrow> truthy (js_or a b)"
  by (simp add: js_or_def)

lemma truthy_not_nullish: "truthy v \<Longrightarrow> \<not> nullish v"
  by (cases v) simp_all

lemma emitted_update: "emitted s (t\<lparr>trace := trace s @ xs\<rparr>) = xs"
  by (simp add: emitted_def)

text \<open>The query is built without touching the state; only a null options value throws.\<close>

lemma build_params_run:
  "build_params options s =
     (if nullish options then Inl (type_error ''status'')
      else Inr (filter (\<lambda>(k, v). truthy v)
                  (map (\<lambda>k. (k, own_prop options k))
                     [''status'', ''page'', ''limit'', ''category'', ''priority''])), s)"
  by (simp add: build_params_def append_param_def prog_defs)

lemma build_params_any:
  "build_params options s = (r, s') \<Longrightarrow> build_params options t = (r, t)"
  by (simp add: build_params_run)

lemma refresh_params: "build_params (default_arg JUndefined (JObj [])) s = (Inr [], s)"
  by (simp add: build_params_run default_arg_def)

text \<open>
  The three ways \<^verbatim>\<open>fetchQueue\<close> ends once the query is built: the call rejects; it
  resolves with null or undefined, so that \<^verbatim>\<open>response.data\<close> throws after the queue
  was replaced; it resolves with anything else.
\<close>

lemma fetchQueue_run:
  assumes "build_params (default_arg options (JObj [])) s = (Inr params, s)"
  shows "fetchQueue remote options s =
     (case api_getQueue remote params of
        Reject e \<Rightarrow>
          (Inr JNull,
           s\<lparr>loading := False,
             error := js_or (opt_get e ''message'') (JStr ''Unknown error''),
             trace := trace s @ [SetLoading True, SetError JNull, GetQueue params,
               SetError (js_or (opt_get e ''message'') (JStr ''Unknown error'')),
               ToastError (JStr ''Failed to fetch moderation queue''), SetLoading False]\<rparr>)
      | Resolve response \<Rightarrow>
          (if nullish response then
             (Inr JNull,
              s\<lparr>queue := JArr [], loading := False,
                error := js_or (opt_get (type_error ''data'') ''message'') (JStr ''Unknown error''),
                trace := trace s @ [SetLoading True, SetError JNull, GetQueue params,
                  SetQueue (JArr []),
                  SetError (js_or (opt_get (type_error ''data'') ''message'') (JStr ''Unknown error'')),
                  ToastError (JStr ''Failed to fetch moderation queue''), SetLoading False]\<rparr>)
           else
             (Inr (own_prop response ''data''),
              s\<lparr>queue := js_or (opt_get (opt_get (opt_get response ''data'') ''data'') ''items'')
                          (JArr []),
                loading := False, error := JNull,
                trace := trace s @ [SetLoading True, SetError JNull, GetQueue params,
                  SetQueue (js_or (opt_get (opt_get (opt_get response ''data'') ''data'') ''items'')
                          (JArr [])),
                  SetLoading False]\<rparr>)))"
proof -
  have b: "\<And>t. build_params (default_arg options (JObj [])) t = (Inr params, t)"
    using assms by (rule build_params_any)
  show ?thesis
    by (simp add: fetchQueue_def Let_def prog_defs b opt_get_def js_or_def split: outcome.splits)
qed

lemma fetchQueue_null_run:
  "fetchQueue remote JNull s =
     (Inr JNull,
      s\<lparr>loading := False,
        error := js_or (opt_get (type_error ''status'') ''message'') (JStr ''Unknown error''),
        trace := trace s @ [SetLoading True, SetError JNull,
          SetError (js_or (opt_get (type_error ''status'') ''message'') (JStr ''Unknown error'')),
          ToastError (JStr ''Failed to fetch moderation queue''), SetLoading False]\<rparr>)"
  by (simp add: fetchQueue_def Let_def prog_defs build_params_run default_arg_def)

lemmas fetchQueue_refresh_run = fetchQueue_run [OF refresh_params]

text \<open>
  The refresh inside an operation never throws, so what follows it always runs.
\<close>

lemma fetchQueue_refresh_returns:
  "\<exists>v. fst (fetchQueue remote JUndefined s) = Inr v"
  by (simp add: fetchQueue_refresh_run split: outcome.splits)

lemma seq_fetchQueue_refresh:
  "seq (fetchQueue remote JUndefined) n = (\<lambda>s. n (snd (fetchQueue remote JUndefined s)))"
proof
  fix s
  obtain v where "fst (fetchQueue remote JUndefined s) = Inr v"
    using fetchQueue_refresh_returns by blast
  then show "seq (fetchQueue remote JUndefined) n s = n (snd (fetchQueue remote JUndefined s))"
    by (cases "fetchQueue remote JUndefined s") (simp add: seq_def bind_def)
qed

text \<open>
  The other operations, by the outcome of their call; where one reads
  \<^verbatim>\<open>response.data\<close>, a null or undefined response throws into the handler.
\<close>

lemma analyzeContent_run:
  "analyzeContent remote content s =
     (case api_analyze remote content of
        Reject e \<Rightarrow>
          (Inr JNull,
           s\<lparr>loading := False,
             trace := trace s @ [SetLoading True, Analyze content,
               ToastError (JStr ''Content analysis failed''), SetLoading False]\<rparr>)
      | Resolve response \<Rightarrow>
          (Inr (opt_get (opt_get response ''data'') ''data''),
           s\<lparr>loading := False,
             trace := trace s @ [SetLoading True, Analyze content, SetLoading False]\<rparr>))"
  by (simp add: analyzeContent_def prog_defs split: outcome.splits)

lemma takeAction_run:
  "takeAction remote queueItemId action why notes0 s =
     (case api_takeAction remote queueItemId
             (JObj [(''action'', JStr action), (''reason'', why),
                    (''notes'', default_arg notes0 (JStr []))]) of
        Reject e \<Rightarrow>
          (Inr JNull,
           s\<lparr>loading := False,
             trace := trace s @ [SetLoading True,
               TakeAction queueItemId
                 (JObj [(''action'', JStr action), (''reason'', why),
                        (''notes'', default_arg notes0 (JStr []))]),
               ToastError (JStr ''Failed to take action''), SetLoading False]\<rparr>)
      | Resolve response \<Rightarrow>
          (let s1 = snd (fetchQueue remote JUndefined
                 (s\<lparr>loading := True,
                    trace := trace s @ [SetLoading True,
                      TakeAction queueItemId
                        (JObj [(''action'', JStr action), (''reason'', why),
                               (''notes'', default_arg notes0 (JStr []))]),
                      ToastSuccess (JStr (''Action '' @ [CHR 0x22] @ action @ [CHR 0x22]
                         @ '' completed''))]\<rparr>))
           in if nullish response then
                (Inr JNull,
                 s1\<lparr>loading := False,
                    trace := trace s1 @ [ToastError (JStr ''Failed to take action''),
                      SetLoading False]\<rparr>)
              else
                (Inr (own_prop response ''data''),
                 s1\<lparr>loading := False, trace := trace s1 @ [SetLoading False]\<rparr>)))"
  unfolding takeAction_def seq_fetchQueue_refresh
  by (simp add: Let_def prog_defs split: outcome.splits)

lemma bulkAction_run:
  "bulkAction remote itemIds action why s =
     (case api_bulkAction remote
             (JObj [(''itemIds'', JArr itemIds), (''action'', action), (''reason'', why)]) of
        Reject e \<Rightarrow>
          (Inr JNull,
           s\<lparr>loading := False,
             trace := trace s @ [SetLoading True,
               BulkAction (JObj [(''itemIds'', JArr itemIds), (''action'', action),
                                 (''reason'', why)]),
               ToastError (JStr ''Bulk action failed''), SetLoading False]\<rparr>)
      | Resolve response \<Rightarrow>
          (let s1 = snd (fetchQueue remote JUndefined
                 (s\<lparr>loading := True,
                    trace := trace s @ [SetLoading True,
                      BulkAction (JObj [(''itemIds'', JArr itemIds), (''action'', action),
                                        (''reason'', why)]),
                      ToastSuccess (JStr (''Bulk action completed: ''
                         @ string_of_nat (successCount
                             (js_or (opt_get (opt_get response ''data'') ''data'') (JArr [])))
                         @ ''/'' @ string_of_nat (length itemIds) @ '' items''))]\<rparr>))
           in if nullish response then
                (Inr JNull,
                 s1\<lparr>loading := False,
                    trace := trace s1 @ [ToastError (JStr ''Bulk action failed''),
                      SetLoading False]\<rparr>)
              else
                (Inr (own_prop response ''data''),
                 s1\<lparr>loading := False, trace := trace s1 @ [SetLoading False]\<rparr>)))"
  unfolding bulkAction_def seq_fetchQueue_refresh
  by (simp add: Let_def prog_defs split: outcome.splits)

lemma fetchAppeals_run:
  "fetchAppeals remote options s =
     (case api_getAppeals remote (default_arg options (JObj [])) of
        Reject e \<Rightarrow>
          (Inr JNull,
           s\<lparr>loading := False,
             trace := trace s @ [SetLoading True, GetAppeals (default_arg options (JObj [])),
               ToastError (JStr ''Failed to fetch appeals''), SetLoading False]\<rparr>)
      | Resolve response \<Rightarrow>
          (if nullish response then
             (Inr JNull,
              s\<lparr>appeals := JArr [], loading := False,
                trace := trace s @ [SetLoading True, GetAppeals (default_arg options (JObj [])),
                  SetAppeals (JArr []), ToastError (JStr ''Failed to fetch appeals''),
                  SetLoading False]\<rparr>)
           else
             (Inr (own_prop response ''data''),
              s\<lparr>appeals := js_or (opt_get (opt_get (opt_get response ''data'') ''data'') ''appeals'')
                            (JArr []),
                loading := False,
                trace := trace s @ [SetLoading True, GetAppeals (default_arg options (JObj [])),
                  SetAppeals (js_or (opt_get (opt_get (opt_get response ''data'') ''data'') ''appeals'')
                            (JArr [])),
                  SetLoading False]\<rparr>)))"
  by (simp add: fetchAppeals_def Let_def prog_defs opt_get_def js_or_def split: outcome.splits)

lemma submitAppeal_run:
  "submitAppeal remote actionId why evidence0 s =
     (case api_submitAppeal remote
             (JObj [(''actionId'', actionId), (''reason'', why),
                    (''evidence'', default_arg evidence0 (JArr []))]) of
        Reject e \<Rightarrow>
          (Inr JNull,
           s\<lparr>loading := False,
             trace := trace s @ [SetLoading True,
               SubmitAppeal (JObj [(''actionId'', actionId), (''reason'', why),
                                   (''evidence'', default_arg evidence0 (JArr []))]),
               ToastError (js_or (opt_get (opt_get (opt_get e ''response'') ''data'') ''message'')
                             (JStr ''Failed to submit appeal'')),
               SetLoading False]\<rparr>)
      | Resolve response \<Rightarrow>
          (if nullish response then
             (Inr JNull,
              s\<lparr>loading := False,
                trace := trace s @ [SetLoading True,
                  SubmitAppeal (JObj [(''actionId'', actionId), (''reason'', why),
                                      (''evidence'', default_arg evidence0 (JArr []))]),
                  ToastSuccess (JStr ''Appeal submitted successfully''),
                  ToastError (js_or (opt_get (opt_get (opt_get (type_error ''data'') ''response'')
                                ''data'') ''message'') (JStr ''Failed to submit appeal'')),
                  SetLoading False]\<rparr>)
           else
             (Inr (own_prop response ''data''),
              s\<lparr>loading := False,
                trace := trace s @ [SetLoading True,
                  SubmitAppeal (JObj [(''actionId'', actionId), (''reason'', why),
                                      (''evidence'', default_arg evidence0 (JArr []))]),
                  ToastSuccess (JStr ''Appeal submitted successfully''),
                  SetLoading False]\<rparr>)))"
  by (simp add: submitAppeal_def Let_def prog_defs split: outcome.splits)

lemma fetchFilters_run:
  "fetchFilters remote options s =
     (case api_getFilters remote (default_arg options (JObj [])) of
        Reject e \<Rightarrow>
          (Inr JNull,
           s\<lparr>loading := False,
             trace := trace s @ [SetLoading True, GetFilters (default_arg options (JObj [])),
               ToastError (JStr ''Failed to fetch filters''), SetLoading False]\<rparr>)
      | Resolve response \<Rightarrow>
          (if nullish response then
             (Inr JNull,
              s\<lparr>filters := JObj [], loading := False,
                trace := trace s @ [SetLoading True, GetFilters (default_arg options (JObj [])),
                  SetFilters (JObj []), ToastError (JStr ''Failed to fetch filters''),
                  SetLoading False]\<rparr>)
           else
             (Inr (own_prop response ''data''),
              s\<lparr>filters := js_or (opt_get (opt_get response ''data'') ''data'') (JObj []),
                loading := False,
                trace := trace s @ [SetLoading True, GetFilters (default_arg options (JObj [])),
                  SetFilters (js_or (opt_get (opt_get response ''data'') ''data'') (JObj [])),
                  SetLoading False]\<rparr>)))"
  by (simp add: fetchFilters_def Let_def prog_defs opt_get_def js_or_def split: outcome.splits)

lemma seq_fetchFilters:
  "seq (fetchFilters remote options) n = (\<lambda>s. n (snd (fetchFilters remote options s)))"
proof
  fix s
  have "\<exists>v. fst (fetchFilters remote options s) = Inr v"
    by (simp add: fetchFilters_run split: outcome.splits)
  then obtain v where "fst (fetchFilters remote options s) = Inr v" ..
  then show "seq (fetchFilters remote options) n s = n (snd (fetchFilters remote options s))"
    by (cases "fetchFilters remote options s") (simp add: seq_def bind_def)
qed

lemma createFilter_run:
  "createFilter remote filterData s =
     (case api_createFilter remote filterData of
        Reject e \<Rightarrow>
          (Inr JNull,
           s\<lparr>loading := False,
             trace := trace s @ [SetLoading True, CreateFilter filterData,
               ToastError (JStr ''Failed to create filter''), SetLoading False]\<rparr>)
      | Resolve response \<Rightarrow>
          (let s1 = snd (fetchFilters remote JUndefined
                 (s\<lparr>loading := True,
                    trace := trace s @ [SetLoading True, CreateFilter filterData,
                      ToastSuccess (JStr ''Filter created successfully'')]\<rparr>))
           in if nullish response then
                (Inr JNull,
                 s1\<lparr>loading := False,
                    trace := trace s1 @ [ToastError (JStr ''Failed to create filter''),
                      SetLoading False]\<rparr>)
              else
                (Inr (own_prop response ''data''),
                 s1\<lparr>loading := False, trace := trace s1 @ [SetLoading False]\<rparr>)))"
  unfolding createFilter_def seq_fetchFilters
  by (simp add: Let_def prog_defs split: outcome.splits)

lemma fetchStatistics_run:
  "fetchStatistics remote startDate endDate s =
     (case api_getStatistics remote (JObj [(''startDate'', startDate), (''endDate'', endDate)]) of
        Reject e \<Rightarrow>
          (Inr JNull,
           s\<lparr>loading := False,
             trace := trace s @ [SetLoading True,
               GetStatistics (JObj [(''startDate'', startDate), (''endDate'', endDate)]),
               ToastError (JStr ''Failed to fetch statistics''), SetLoading False]\<rparr>)
      | Resolve response \<Rightarrow>
          (if nullish response then
             (Inr JNull,
              s\<lparr>statistics := JNull, loading := False,
                trace := trace s @ [SetLoading True,
                  GetStatistics (JObj [(''startDate'', startDate), (''endDate'', endDate)]),
                  SetStatistics JNull, ToastError (JStr ''Failed to fetch statistics''),
                  SetLoading False]\<rparr>)
           else
             (Inr (own_prop response ''data''),
              s\<lparr>statistics := js_or (opt_get (opt_get response ''data'') ''data'') JNull,
                loading := False,
                trace := trace s @ [SetLoading True,
                  GetStatistics (JObj [(''startDate'', startDate), (''endDate'', endDate)]),
                  SetStatistics (js_or (opt_get (opt_get response ''data'') ''data'') JNull),
                  SetLoading False]\<rparr>)))"
  by (simp add: fetchStatistics_def Let_def prog_defs opt_get_def js_or_def split: outcome.splits)

section \<open>The queue after \<^verbatim>\<open>fetchQueue\<close>\<close>

text \<open>
  Claim C2. When the call of \<^verbatim>\<open>getQueue\<close> resolves, the queue afterwards is the
  \<^verbatim>\<open>items\<close> array found under the \<^verbatim>\<open>data\<close> envelope of the response body
  (\<^verbatim>\<open>response.data\<close> of the HTTP client's response) when there is one, and the
  empty array when the field is absent at any level. It is computed from the response
  alone: two runs from different states end with the same queue, so the value from
  before the call is never kept.
\<close>

theorem fetchQueue_success_replaces_queue:
  assumes "build_params (default_arg options (JObj [])) s = (Inr params, s)"
    and "api_getQueue remote params = Resolve response"
  shows "queue (snd (fetchQueue remote options s)) =
           (case opt_get (opt_get (opt_get response ''data'') ''data'') ''items'' of
              JArr items \<Rightarrow> JArr items
            | JUndefined \<Rightarrow> JArr []
            | v \<Rightarrow> js_or v (JArr []))
       \<and> queue (snd (fetchQueue remote options s)) = queue (snd (fetchQueue remote options t))"
proof -
  have bt: "build_params (default_arg options (JObj [])) t = (Inr params, t)"
    using assms(1) by (rule build_params_any)
  have absent: "opt_get (opt_get (opt_get response ''data'') ''data'') ''items'' = JUndefined"
    if "nullish response"
    using that by (simp add: opt_get_def)
  show ?thesis
    by (simp add: fetchQueue_run [OF assms(1)] fetchQueue_run [OF bt] assms(2) absent js_or_def
          split: jsval.splits)
qed

theorem fetchQueue_success_replaces_queue_witness:
  "build_params (default_arg (JObj [(''status'', JStr ''pending'')]) (JObj []))
       (initial\<lparr>queue := JArr [JNum 1]\<rparr>)
     = (Inr [(''status'', JStr ''pending'')], initial\<lparr>queue := JArr [JNum 1]\<rparr>)
   \<and> api_getQueue
        (answering (JObj [(''data'', JObj [(''data'', JObj [(''items'', JArr [JNum 7])])])]))
        [(''status'', JStr ''pending'')]
     = Resolve (JObj [(''data'', JObj [(''data'', JObj [(''items'', JArr [JNum 7])])])])
   \<and> queue (snd (fetchQueue
        (answering (JObj [(''data'', JObj [(''data'', JObj [(''items'', JArr [JNum 7])])])]))
        (JObj [(''status'', JStr ''pending'')]) (initial\<lparr>queue := JArr [JNum 1]\<rparr>)))
     = JArr [JNum 7]"
proof -
  let ?r = "JObj [(''data'', JObj [(''data'', JObj [(''items'', JArr [JNum 7])])])]"
  let ?s = "initial\<lparr>queue := JArr [JNum 1]\<rparr>"
  have h1: "build_params (default_arg (JObj [(''status'', JStr ''pending'')]) (JObj [])) ?s
      = (Inr [(''status'', JStr ''pending'')], ?s)"
    by (simp add: build_params_run default_arg_def)
  have h2: "api_getQueue (answering ?r) [(''status'', JStr ''pending'')] = Resolve ?r"
    by (simp add: answering_def)
  show ?thesis
    using h1 h2 fetchQueue_success_replaces_queue [OF h1 h2, of initial]
    by (simp add: opt_get_def)
qed

text \<open>
  Claim C3. When the call of \<^verbatim>\<open>getQueue\<close> rejects, the queue is the one from before
  the call, the busy flag is down, and the error is the reason's message or
  \<^verbatim>\<open>"Unknown error"\<close>, which is neither null nor undefined.
\<close>

theorem fetchQueue_failure_keeps_queue:
  assumes "build_params (default_arg options (JObj [])) s = (Inr params, s)"
    and "api_getQueue remote params = Reject e"
  shows "queue (snd (fetchQueue remote options s)) = queue s
     \<and> loading (snd (fetchQueue remote options s)) = False
     \<and> error (snd (fetchQueue remote options s))
         = js_or (opt_get e ''message'') (JStr ''Unknown error'')
     \<and> \<not> nullish (error (snd (fetchQueue remote options s)))"
  by (simp add: fetchQueue_run [OF assms(1)] assms(2) truthy_js_or truthy_not_nullish)

theorem fetchQueue_failure_keeps_queue_witness:
  "build_params (default_arg JUndefined (JObj [])) (initial\<lparr>queue := JArr [JNum 1]\<rparr>)
     = (Inr [], initial\<lparr>queue := JArr [JNum 1]\<rparr>)
   \<and> api_getQueue (failing network_error) [] = Reject network_error
   \<and> queue (snd (fetchQueue (failing network_error) JUndefined (initial\<lparr>queue := JArr [JNum 1]\<rparr>)))
     = JArr [JNum 1]
   \<and> loading (snd (fetchQueue (failing network_error) JUndefined (initial\<lparr>queue := JArr [JNum 1]\<rparr>)))
     = False
   \<and> error (snd (fetchQueue (failing network_error) JUndefined (initial\<lparr>queue := JArr [JNum 1]\<rparr>)))
     = JStr ''Network Error''"
proof -
  let ?s = "initial\<lparr>queue := JArr [JNum 1]\<rparr>"
  have h1: "build_params (default_arg JUndefined (JObj [])) ?s = (Inr [], ?s)"
    by (rule refresh_params)
  have h2: "api_getQueue (failing network_error) [] = Reject network_error"
    by (simp add: failing_def)
  show ?thesis
    using h1 h2 fetchQueue_failure_keeps_queue [OF h1 h2]
    by (simp add: opt_get_def js_or_def network_error_def)
qed

section \<open>Refresh after a mutation\<close>

lemma fetch_count_append: "fetch_count (xs @ ys) = fetch_count xs + fetch_count ys"
  by (simp add: fetch_count_def)

lemma fetch_count_refresh:
  "fetch_count (trace (snd (fetchQueue remote JUndefined s))) = fetch_count (trace s) + 1"
  by (simp add: fetchQueue_refresh_run fetch_count_def split: outcome.splits)

text \<open>
  Claim C6. The number of queue fetches (calls of \<^verbatim>\<open>getQueue\<close>, one per run of
  \<^verbatim>\<open>fetchQueue\<close>) made by the time \<^verbatim>\<open>takeAction\<close> returns: unchanged when
  the call of the remote \<^verbatim>\<open>takeAction\<close> rejects, exactly one more when it resolves.
\<close>

theorem takeAction_refresh_count:
  "fetch_count (trace (snd (takeAction remote queueItemId action why notes s))) =
     (case api_takeAction remote queueItemId
             (JObj [(''action'', JStr action), (''reason'', why),
                    (''notes'', default_arg notes (JStr []))]) of
        Reject e \<Rightarrow> fetch_count (trace s)
      | Resolve response \<Rightarrow> fetch_count (trace s) + 1)"
  by (simp add: takeAction_run Let_def fetch_count_append fetch_count_refresh split: outcome.splits)
     (simp add: fetch_count_def)

theorem takeAction_refresh_count_witness:
  "fetch_count (trace (snd (takeAction (failing network_error) (JNum 1) ''approve''
       (JStr ''spam'') JUndefined initial))) = 0
   \<and> fetch_count (trace (snd (takeAction (answering (JObj [(''data'', JObj [])])) (JNum 1)
       ''approve'' (JStr ''spam'') JUndefined initial))) = 1"
  using takeAction_refresh_count [of "failing network_error" "JNum 1" "''approve''"
          "JStr ''spam''" JUndefined initial]
        takeAction_refresh_count [of "answering (JObj [(''data'', JObj [])])" "JNum 1"
          "''approve''" "JStr ''spam''" JUndefined initial]
  by (simp add: failing_def answering_def initial_def fetch_count_def)

section \<open>Bulk actions\<close>

lemma refresh_emits:
  "\<exists>post. trace (snd (fetchQueue remote JUndefined s)) = trace s @ post
      \<and> fetch_count post = 1 \<and> filter is_ToastSuccess post = []"
  by (simp add: fetchQueue_refresh_run fetch_count_def split: outcome.splits)

lemma bulkAction_success_trace:
  assumes "api_bulkAction remote
             (JObj [(''itemIds'', JArr itemIds), (''action'', action), (''reason'', why)])
           = Resolve response"
  shows "\<exists>post. trace (snd (bulkAction remote itemIds action why s)) =
            trace s @ [SetLoading True,
              BulkAction (JObj [(''itemIds'', JArr itemIds), (''action'', action),
                                (''reason'', why)]),
              ToastSuccess (JStr (''Bulk action completed: ''
                 @ string_of_nat (successCount
                     (js_or (opt_get (opt_get response ''data'') ''data'') (JArr [])))
                 @ ''/'' @ string_of_nat (length itemIds) @ '' items''))] @ post
          \<and> fetch_count post = 1 \<and> filter is_ToastSuccess post = []"
proof -
  let ?pre = "[SetLoading True,
      BulkAction (JObj [(''itemIds'', JArr itemIds), (''action'', action), (''reason'', why)]),
      ToastSuccess (JStr (''Bulk action completed: ''
         @ string_of_nat (successCount
             (js_or (opt_get (opt_get response ''data'') ''data'') (JArr [])))
         @ ''/'' @ string_of_nat (length itemIds) @ '' items''))]"
  let ?s0 = "s\<lparr>loading := True, trace := trace s @ ?pre\<rparr>"
  let ?s1 = "snd (fetchQueue remote JUndefined ?s0)"
  obtain post where post: "trace ?s1 = trace ?s0 @ post"
    "fetch_count post = 1" "filter is_ToastSuccess post = []"
    using refresh_emits by blast
  let ?tail = "if nullish response then [ToastError (JStr ''Bulk action failed''), SetLoading False]
               else [SetLoading False]"
  have "trace (snd (bulkAction remote itemIds action why s)) = trace ?s1 @ ?tail"
    by (simp add: bulkAction_run assms Let_def)
  then have "trace (snd (bulkAction remote itemIds action why s)) = trace s @ ?pre @ (post @ ?tail)"
    using post(1) by simp
  moreover have "fetch_count (post @ ?tail) = 1"
    using post(2) by (simp add: fetch_count_def)
  moreover have "filter is_ToastSuccess (post @ ?tail) = []"
    using post(3) by simp
  ultimately show ?thesis by blast
qed

text \<open>
  Claim C4. When the bulk call resolves with the body data
  \<^verbatim>\<open>[{success:true},{success:false},{success:true}]\<close> for three ids, the success
  toast reads \<^verbatim>\<open>Bulk action completed: 2/3 items\<close>, and what follows it contains
  exactly one queue fetch and no other success toast.
\<close>

theorem bulkAction_reports_ratio:
  assumes "api_bulkAction remote
             (JObj [(''itemIds'', JArr itemIds), (''action'', action), (''reason'', why)])
           = Resolve response"
    and "opt_get (opt_get response ''data'') ''data'' =
           JArr [JObj [(''success'', JBool True)], JObj [(''success'', JBool False)],
                 JObj [(''success'', JBool True)]]"
    and "length itemIds = 3"
  shows "\<exists>post. trace (snd (bulkAction remote itemIds action why s)) =
            trace s @ [SetLoading True,
              BulkAction (JObj [(''itemIds'', JArr itemIds), (''action'', action),
                                (''reason'', why)]),
              ToastSuccess (JStr ''Bulk action completed: 2/3 items'')] @ post
          \<and> fetch_count post = 1 \<and> filter is_ToastSuccess post = []"
proof -
  have count: "successCount (js_or (opt_get (opt_get response ''data'') ''data'') (JArr [])) = 2"
    unfolding assms(2) by (simp add: js_or_def opt_get_def)
  have digits: "string_of_nat 2 = ''2''" "string_of_nat 3 = ''3''"
    by (simp_all add: string_of_nat.simps digit_char_def)
  show ?thesis
    using bulkAction_success_trace [OF assms(1), of s] by (simp add: count assms(3) digits)
qed

theorem bulkAction_reports_ratio_witness:
  "api_bulkAction
      (answering (JObj [(''data'', JObj [(''data'',
         JArr [JObj [(''success'', JBool True)], JObj [(''success'', JBool False)],
               JObj [(''success'', JBool True)]])])]))
      (JObj [(''itemIds'', JArr [JNum 1, JNum 2, JNum 3]), (''action'', JStr ''approve''),
             (''reason'', JStr ''bulk_action'')])
    = Resolve (JObj [(''data'', JObj [(''data'',
         JArr [JObj [(''success'', JBool True)], JObj [(''success'', JBool False)],
               JObj [(''success'', JBool True)]])])])
   \<and> length [JNum 1, JNum 2, JNum 3] = 3
   \<and> (\<exists>post. trace (snd (bulkAction
          (answering (JObj [(''data'', JObj [(''data'',
             JArr [JObj [(''success'', JBool True)], JObj [(''success'', JBool False)],
                   JObj [(''success'', JBool True)]])])]))
          [JNum 1, JNum 2, JNum 3] (JStr ''approve'') (JStr ''bulk_action'') initial)) =
        trace initial @ [SetLoading True,
          BulkAction (JObj [(''itemIds'', JArr [JNum 1, JNum 2, JNum 3]),
                            (''action'', JStr ''approve''), (''reason'', JStr ''bulk_action'')]),
          ToastSuccess (JStr ''Bulk action completed: 2/3 items'')] @ post
      \<and> fetch_count post = 1 \<and> filter is_ToastSuccess post = [])"
proof -
  let ?r = "JObj [(''data'', JObj [(''data'',
         JArr [JObj [(''success'', JBool True)], JObj [(''success'', JBool False)],
               JObj [(''success'', JBool True)]])])]"
  have h1: "api_bulkAction (answering ?r)
      (JObj [(''itemIds'', JArr [JNum 1, JNum 2, JNum 3]), (''action'', JStr ''approve''),
             (''reason'', JStr ''bulk_action'')]) = Resolve ?r"
    by (simp add: answering_def)
  have h2: "opt_get (opt_get ?r ''data'') ''data'' =
      JArr [JObj [(''success'', JBool True)], JObj [(''success'', JBool False)],
            JObj [(''success'', JBool True)]]"
    by (simp add: opt_get_def)
  have h3: "length [JNum 1, JNum 2, JNum 3] = 3"
    by simp
  show ?thesis
    by (intro conjI h1 h3 bulkAction_reports_ratio [OF h1 h2 h3])
qed

text \<open>
  Claim C5. When the bulk call resolves and the body data is not an array (missing at
  any level, null, or any other value), the count is 0, the success toast is issued with
  \<^verbatim>\<open>0/n\<close>, exactly one queue fetch follows it, and the operation does not throw.
\<close>

theorem bulkAction_tolerates_malformed:
  assumes "api_bulkAction remote
             (JObj [(''itemIds'', JArr itemIds), (''action'', action), (''reason'', why)])
           = Resolve response"
    and "\<not> is_array (opt_get (opt_get response ''data'') ''data'')"
  shows "successCount (js_or (opt_get (opt_get response ''data'') ''data'') (JArr [])) = 0
     \<and> \<not> isl (fst (bulkAction remote itemIds action why s))
     \<and> (\<exists>post. trace (snd (bulkAction remote itemIds action why s)) =
            trace s @ [SetLoading True,
              BulkAction (JObj [(''itemIds'', JArr itemIds), (''action'', action),
                                (''reason'', why)]),
              ToastSuccess (JStr (''Bulk action completed: 0/''
                 @ string_of_nat (length itemIds) @ '' items''))] @ post
          \<and> fetch_count post = 1 \<and> filter is_ToastSuccess post = [])"
proof -
  have count: "successCount (js_or (opt_get (opt_get response ''data'') ''data'') (JArr [])) = 0"
    using assms(2) by (cases "opt_get (opt_get response ''data'') ''data''") (simp_all add: js_or_def)
  have zero: "string_of_nat 0 = ''0''"
    by (simp add: string_of_nat.simps digit_char_def)
  have "\<not> isl (fst (bulkAction remote itemIds action why s))"
    by (simp add: bulkAction_run assms(1) Let_def)
  then show ?thesis
    using bulkAction_success_trace [OF assms(1), of s] by (simp add: count zero)
qed

theorem bulkAction_tolerates_malformed_witness:
  "api_bulkAction (answering (JObj [(''data'', JNull)]))
      (JObj [(''itemIds'', JArr [JNum 1, JNum 2]), (''action'', JStr ''approve''),
             (''reason'', JStr ''bulk_action'')])
    = Resolve (JObj [(''data'', JNull)])
   \<and> is_array (opt_get (opt_get (JObj [(''data'', JNull)]) ''data'') ''data'') = False
   \<and> fst (bulkAction (answering (JObj [(''data'', JNull)])) [JNum 1, JNum 2] (JStr ''approve'')
        (JStr ''bulk_action'') initial) = Inr JNull
   \<and> (\<exists>post. trace (snd (bulkAction (answering (JObj [(''data'', JNull)])) [JNum 1, JNum 2]
          (JStr ''approve'') (JStr ''bulk_action'') initial)) =
        [SetLoading True,
          BulkAction (JObj [(''itemIds'', JArr [JNum 1, JNum 2]),
                            (''action'', JStr ''approve''), (''reason'', JStr ''bulk_action'')]),
          ToastSuccess (JStr ''Bulk action completed: 0/2 items'')] @ post
      \<and> fetch_count post = 1 \<and> filter is_ToastSuccess post = [])"
proof -
  let ?r = "JObj [(''data'', JNull)]"
  have h1: "api_bulkAction (answering ?r)
      (JObj [(''itemIds'', JArr [JNum 1, JNum 2]), (''action'', JStr ''approve''),
             (''reason'', JStr ''bulk_action'')]) = Resolve ?r"
    by (simp add: answering_def)
  have h2: "\<not> is_array (opt_get (opt_get ?r ''data'') ''data'')"
    by (simp add: opt_get_def)
  have two: "string_of_nat (Suc (Suc 0)) = ''2''"
    by (simp add: string_of_nat.simps digit_char_def)
  have ret: "fst (bulkAction (answering ?r) [JNum 1, JNum 2] (JStr ''approve'')
        (JStr ''bulk_action'') initial) = Inr JNull"
    by (simp add: bulkAction_run h1 Let_def)
  show ?thesis
    using h1 h2 ret bulkAction_tolerates_malformed [OF h1 h2, of initial]
    by (simp add: two initial_def)
qed

section \<open>Failures stay inside the operations\<close>

lemma build_params_ok:
  assumes "options \<noteq> JNull"
  shows "\<exists>params. build_params (default_arg options (JObj [])) s = (Inr params, s)"
proof -
  have "\<not> nullish (default_arg options (JObj []))"
    using assms by (cases options) (simp_all add: default_arg_def)
  then show ?thesis
    by (simp only: build_params_run if_False) blast
qed

lemma fetchQueue_never_throws: "\<not> isl (fst (fetchQueue remote options s))"
proof (cases "options = JNull")
  case True
  then show ?thesis by (simp add: fetchQueue_null_run)
next
  case False
  then obtain params where b: "build_params (default_arg options (JObj [])) s = (Inr params, s)"
    using build_params_ok by blast
  show ?thesis
    by (simp add: fetchQueue_run [OF b] split: outcome.splits)
qed

text \<open>
  Claim C9. No operation of the hook throws (the promise it returns never rejects),
  whatever the remote service does; and when the operation's own call of the remote
  service rejects, the operation returns null.
\<close>

theorem failures_absorbed:
  "\<not> isl (fst (fetchQueue remote options s))
   \<and> \<not> isl (fst (analyzeContent remote content s))
   \<and> \<not> isl (fst (takeAction remote queueItemId action why memo s))
   \<and> \<not> isl (fst (bulkAction remote itemIds act why s))
   \<and> \<not> isl (fst (fetchAppeals remote options s))
   \<and> \<not> isl (fst (submitAppeal remote actionId why evidence s))
   \<and> \<not> isl (fst (fetchFilters remote options s))
   \<and> \<not> isl (fst (createFilter remote filterData s))
   \<and> \<not> isl (fst (fetchStatistics remote startDate endDate s))
   \<and> (build_params (default_arg options (JObj [])) s = (Inr params, s)
        \<and> api_getQueue remote params = Reject e
      \<longrightarrow> fst (fetchQueue remote options s) = Inr JNull)
   \<and> (api_analyze remote content = Reject e
      \<longrightarrow> fst (analyzeContent remote content s) = Inr JNull)
   \<and> (api_takeAction remote queueItemId
          (JObj [(''action'', JStr action), (''reason'', why),
                 (''notes'', default_arg memo (JStr []))]) = Reject e
      \<longrightarrow> fst (takeAction remote queueItemId action why memo s) = Inr JNull)
   \<and> (api_bulkAction remote
          (JObj [(''itemIds'', JArr itemIds), (''action'', act), (''reason'', why)]) = Reject e
      \<longrightarrow> fst (bulkAction remote itemIds act why s) = Inr JNull)
   \<and> (api_getAppeals remote (default_arg options (JObj [])) = Reject e
      \<longrightarrow> fst (fetchAppeals remote options s) = Inr JNull)
   \<and> (api_submitAppeal remote
          (JObj [(''actionId'', actionId), (''reason'', why),
                 (''evidence'', default_arg evidence (JArr []))]) = Reject e
      \<longrightarrow> fst (submitAppeal remote actionId why evidence s) = Inr JNull)
   \<and> (api_getFilters remote (default_arg options (JObj [])) = Reject e
      \<longrightarrow> fst (fetchFilters remote options s) = Inr JNull)
   \<and> (api_createFilter remote filterData = Reject e
      \<longrightarrow> fst (createFilter remote filterData s) = Inr JNull)
   \<and> (api_getStatistics remote (JObj [(''startDate'', startDate), (''endDate'', endDate)])
        = Reject e
      \<longrightarrow> fst (fetchStatistics remote startDate endDate s) = Inr JNull)"
proof (intro conjI impI)
  show "\<not> isl (fst (fetchQueue remote options s))"
    by (rule fetchQueue_never_throws)
  show "\<not> isl (fst (analyzeContent remote content s))"
    by (simp add: analyzeContent_run split: outcome.splits)
  show "\<not> isl (fst (takeAction remote queueItemId action why memo s))"
    by (simp add: takeAction_run Let_def split: outcome.splits)
  show "\<not> isl (fst (bulkAction remote itemIds act why s))"
    by (simp add: bulkAction_run Let_def split: outcome.splits)
  show "\<not> isl (fst (fetchAppeals remote options s))"
    by (simp add: fetchAppeals_run split: outcome.splits)
  show "\<not> isl (fst (submitAppeal remote actionId why evidence s))"
    by (simp add: submitAppeal_run split: outcome.splits)
  show "\<not> isl (fst (fetchFilters remote options s))"
    by (simp add: fetchFilters_run split: outcome.splits)
  show "\<not> isl (fst (createFilter remote filterData s))"
    by (simp add: createFilter_run Let_def split: outcome.splits)
  show "\<not> isl (fst (fetchStatistics remote startDate endDate s))"
    by (simp add: fetchStatistics_run split: outcome.splits)
  show "fst (fetchQueue remote options s) = Inr JNull"
    if "build_params (default_arg options (JObj [])) s = (Inr params, s)
        \<and> api_getQueue remote params = Reject e"
    using that by (simp add: fetchQueue_run [OF conjunct1 [OF that]])
  show "fst (analyzeContent remote content s) = Inr JNull"
    if "api_analyze remote content = Reject e"
    using that by (simp add: analyzeContent_run)
  show "fst (takeAction remote queueItemId action why memo s) = Inr JNull"
    if "api_takeAction remote queueItemId
          (JObj [(''action'', JStr action), (''reason'', why),
                 (''notes'', default_arg memo (JStr []))]) = Reject e"
    using that by (simp add: takeAction_run)
  show "fst (bulkAction remote itemIds act why s) = Inr JNull"
    if "api_bulkAction remote
          (JObj [(''itemIds'', JArr itemIds), (''action'', act), (''reason'', why)]) = Reject e"
    using that by (simp add: bulkAction_run)
  show "fst (fetchAppeals remote options s) = Inr JNull"
    if "api_getAppeals remote (default_arg options (JObj [])) = Reject e"
    using that by (simp add: fetchAppeals_run)
  show "fst (submitAppeal remote actionId why evidence s) = Inr JNull"
    if "api_submitAppeal remote
          (JObj [(''actionId'', actionId), (''reason'', why),
                 (''evidence'', default_arg evidence (JArr []))]) = Reject e"
    using that by (simp add: submitAppeal_run)
  show "fst (fetchFilters remote options s) = Inr JNull"
    if "api_getFilters remote (default_arg options (JObj [])) = Reject e"
    using that by (simp add: fetchFilters_run)
  show "fst (createFilter remote filterData s) = Inr JNull"
    if "api_createFilter remote filterData = Reject e"
    using that by (simp add: createFilter_run)
  show "fst (fetchStatistics remote startDate endDate s) = Inr JNull"
    if "api_getStatistics remote (JObj [(''startDate'', startDate), (''endDate'', endDate)])
        = Reject e"
    using that by (simp add: fetchStatistics_run)
qed

theorem failures_absorbed_witness:
  "build_params (default_arg JUndefined (JObj [])) initial = (Inr [], initial)
   \<and> api_getQueue (failing network_error) [] = Reject network_error
   \<and> fst (fetchQueue (failing network_error) JUndefined initial) = Inr JNull
   \<and> fst (analyzeContent (failing network_error) (JStr ''text'') initial) = Inr JNull
   \<and> fst (takeAction (failing network_error) (JNum 1) ''approve'' (JStr ''spam'') JUndefined
        initial) = Inr JNull
   \<and> fst (bulkAction (failing network_error) [JNum 1, JNum 2] (JStr ''approve'') (JStr ''spam'')
        initial) = Inr JNull
   \<and> fst (fetchAppeals (failing network_error) JUndefined initial) = Inr JNull
   \<and> fst (submitAppeal (failing network_error) (JNum 5) (JStr ''spam'') JUndefined initial)
        = Inr JNull
   \<and> fst (fetchFilters (failing network_error) JUndefined initial) = Inr JNull
   \<and> fst (createFilter (failing network_error) (JObj [(''pattern'', JStr ''x'')]) initial)
        = Inr JNull
   \<and> fst (fetchStatistics (failing network_error) JUndefined JUndefined initial) = Inr JNull"
  using failures_absorbed [where remote = "failing network_error" and s = initial
      and options = JUndefined and params = "[]" and e = network_error
      and content = "JStr ''text''" and queueItemId = "JNum 1" and action = "''approve''"
      and why = "JStr ''spam''" and memo = JUndefined and itemIds = "[JNum 1, JNum 2]"
      and act = "JStr ''approve''" and actionId = "JNum 5" and evidence = JUndefined
      and filterData = "JObj [(''pattern'', JStr ''x'')]" and startDate = JUndefined
      and endDate = JUndefined]
  by (simp add: failing_def refresh_params)

section \<open>Who writes the error\<close>

text \<open>
  Claim C10. Of the nine operations only \<^verbatim>\<open>fetchQueue\<close> calls \<^verbatim>\<open>setError\<close>.
  \<^verbatim>\<open>analyzeContent\<close>, \<^verbatim>\<open>fetchAppeals\<close>, \<^verbatim>\<open>submitAppeal\<close>,
  \<^verbatim>\<open>fetchFilters\<close>, \<^verbatim>\<open>createFilter\<close> and \<^verbatim>\<open>fetchStatistics\<close> leave the
  error as it was and write it on no path. \<^verbatim>\<open>takeAction\<close> and \<^verbatim>\<open>bulkAction\<close>
  leave it as it was when their call rejects; when it resolves, the error afterwards and
  the writes to it are those of the refresh by \<^verbatim>\<open>fetchQueue\<close>, whose first write
  clears it.
\<close>

theorem only_fetchQueue_writes_error:
  "error (snd (analyzeContent remote content s)) = error s
   \<and> filter is_SetError (emitted s (snd (analyzeContent remote content s))) = []
   \<and> error (snd (fetchAppeals remote options s)) = error s
   \<and> filter is_SetError (emitted s (snd (fetchAppeals remote options s))) = []
   \<and> error (snd (submitAppeal remote actionId why evidence s)) = error s
   \<and> filter is_SetError (emitted s (snd (submitAppeal remote actionId why evidence s))) = []
   \<and> error (snd (fetchFilters remote options s)) = error s
   \<and> filter is_SetError (emitted s (snd (fetchFilters remote options s))) = []
   \<and> error (snd (createFilter remote filterData s)) = error s
   \<and> filter is_SetError (emitted s (snd (createFilter remote filterData s))) = []
   \<and> error (snd (fetchStatistics remote startDate endDate s)) = error s
   \<and> filter is_SetError (emitted s (snd (fetchStatistics remote startDate endDate s))) = []
   \<and> error (snd (takeAction remote queueItemId action why memo s)) =
         (case api_takeAction remote queueItemId
                 (JObj [(''action'', JStr action), (''reason'', why),
                        (''notes'', default_arg memo (JStr []))]) of
            Reject e \<Rightarrow> error s
          | Resolve response \<Rightarrow> error (snd (fetchQueue remote JUndefined s)))
   \<and> filter is_SetError (emitted s (snd (takeAction remote queueItemId action why memo s))) =
         (case api_takeAction remote queueItemId
                 (JObj [(''action'', JStr action), (''reason'', why),
                        (''notes'', default_arg memo (JStr []))]) of
            Reject e \<Rightarrow> []
          | Resolve response \<Rightarrow>
              filter is_SetError (emitted s (snd (fetchQueue remote JUndefined s))))
   \<and> error (snd (bulkAction remote itemIds act why s)) =
         (case api_bulkAction remote
                 (JObj [(''itemIds'', JArr itemIds), (''action'', act), (''reason'', why)]) of
            Reject e \<Rightarrow> error s
          | Resolve response \<Rightarrow> error (snd (fetchQueue remote JUndefined s)))
   \<and> filter is_SetError (emitted s (snd (bulkAction remote itemIds act why s))) =
         (case api_bulkAction remote
                 (JObj [(''itemIds'', JArr itemIds), (''action'', act), (''reason'', why)]) of
            Reject e \<Rightarrow> []
          | Resolve response \<Rightarrow>
              filter is_SetError (emitted s (snd (fetchQueue remote JUndefined s))))
   \<and> take 1 (filter is_SetError (emitted s (snd (fetchQueue remote JUndefined s))))
         = [SetError JNull]"
proof (intro conjI)
  show "error (snd (analyzeContent remote content s)) = error s"
    by (simp add: emitted_update analyzeContent_run split: outcome.splits)
  show "filter is_SetError (emitted s (snd (analyzeContent remote content s))) = []"
    by (simp add: emitted_update analyzeContent_run split: outcome.splits)
  show "error (snd (fetchAppeals remote options s)) = error s"
    by (simp add: emitted_update fetchAppeals_run split: outcome.splits)
  show "filter is_SetError (emitted s (snd (fetchAppeals remote options s))) = []"
    by (simp add: emitted_update fetchAppeals_run split: outcome.splits)
  show "error (snd (submitAppeal remote actionId why evidence s)) = error s"
    by (simp add: emitted_update submitAppeal_run split: outcome.splits)
  show "filter is_SetError (emitted s (snd (submitAppeal remote actionId why evidence s))) = []"
    by (simp add: emitted_update submitAppeal_run split: outcome.splits)
  show "error (snd (fetchFilters remote options s)) = error s"
    by (simp add: emitted_update fetchFilters_run split: outcome.splits)
  show "filter is_SetError (emitted s (snd (fetchFilters remote options s))) = []"
    by (simp add: emitted_update fetchFilters_run split: outcome.splits)
  show "error (snd (createFilter remote filterData s)) = error s"
    by (simp add: emitted_update createFilter_run fetchFilters_run Let_def split: outcome.splits)
  show "filter is_SetError (emitted s (snd (createFilter remote filterData s))) = []"
    by (simp add: emitted_update createFilter_run fetchFilters_run Let_def emitted_def split: outcome.splits)
  show "error (snd (fetchStatistics remote startDate endDate s)) = error s"
    by (simp add: emitted_update fetchStatistics_run split: outcome.splits)
  show "filter is_SetError (emitted s (snd (fetchStatistics remote startDate endDate s))) = []"
    by (simp add: emitted_update fetchStatistics_run split: outcome.splits)
  show "error (snd (takeAction remote queueItemId action why memo s)) =
         (case api_takeAction remote queueItemId
                 (JObj [(''action'', JStr action), (''reason'', why),
                        (''notes'', default_arg memo (JStr []))]) of
            Reject e \<Rightarrow> error s
          | Resolve response \<Rightarrow> error (snd (fetchQueue remote JUndefined s)))"
    by (simp add: emitted_update takeAction_run fetchQueue_refresh_run Let_def split: outcome.splits)
  show "filter is_SetError (emitted s (snd (takeAction remote queueItemId action why memo s))) =
         (case api_takeAction remote queueItemId
                 (JObj [(''action'', JStr action), (''reason'', why),
                        (''notes'', default_arg memo (JStr []))]) of
            Reject e \<Rightarrow> []
          | Resolve response \<Rightarrow>
              filter is_SetError (emitted s (snd (fetchQueue remote JUndefined s))))"
    by (simp add: emitted_update takeAction_run fetchQueue_refresh_run Let_def emitted_def split: outcome.splits)
  show "error (snd (bulkAction remote itemIds act why s)) =
         (case api_bulkAction remote
                 (JObj [(''itemIds'', JArr itemIds), (''action'', act), (''reason'', why)]) of
            Reject e \<Rightarrow> error s
          | Resolve response \<Rightarrow> error (snd (fetchQueue remote JUndefined s)))"
    by (simp add: emitted_update bulkAction_run fetchQueue_refresh_run Let_def split: outcome.splits)
  show "filter is_SetError (emitted s (snd (bulkAction remote itemIds act why s))) =
         (case api_bulkAction remote
                 (JObj [(''itemIds'', JArr itemIds), (''action'', act), (''reason'', why)]) of
            Reject e \<Rightarrow> []
          | Resolve response \<Rightarrow>
              filter is_SetError (emitted s (snd (fetchQueue remote JUndefined s))))"
    by (simp add: emitted_update bulkAction_run fetchQueue_refresh_run Let_def emitted_def split: outcome.splits)
  show "take 1 (filter is_SetError (emitted s (snd (fetchQueue remote JUndefined s))))
         = [SetError JNull]"
    by (simp add: emitted_update fetchQueue_refresh_run split: outcome.splits)
qed


theorem only_fetchQueue_writes_error_witness:
  "error (snd (analyzeContent (failing network_error) (JStr ''text'')
       (initial\<lparr>error := JStr ''stale''\<rparr>))) = JStr ''stale''
   \<and> error (snd (submitAppeal (failing network_error) (JNum 5) (JStr ''spam'') JUndefined
       (initial\<lparr>error := JStr ''stale''\<rparr>))) = JStr ''stale''
   \<and> error (snd (takeAction (failing network_error) (JNum 1) ''approve'' (JStr ''spam'')
       JUndefined (initial\<lparr>error := JStr ''stale''\<rparr>))) = JStr ''stale''
   \<and> error (snd (bulkAction (failing network_error) [JNum 1, JNum 2] (JStr ''approve'')
       (JStr ''spam'') (initial\<lparr>error := JStr ''stale''\<rparr>))) = JStr ''stale''
   \<and> filter is_SetError (emitted (initial\<lparr>error := JStr ''stale''\<rparr>)
        (snd (bulkAction (failing network_error) [JNum 1, JNum 2] (JStr ''approve'')
           (JStr ''spam'') (initial\<lparr>error := JStr ''stale''\<rparr>)))) = []"
  using only_fetchQueue_writes_error [where remote = "failing network_error"
      and s = "initial\<lparr>error := JStr ''stale''\<rparr>"
      and content = "JStr ''text''" and queueItemId = "JNum 1" and action = "''approve''"
      and why = "JStr ''spam''" and memo = JUndefined and itemIds = "[JNum 1, JNum 2]"
      and act = "JStr ''approve''" and actionId = "JNum 5" and evidence = JUndefined]
  by (simp add: emitted_update failing_def)

section \<open>The busy flag and the failure toast\<close>

lemma fetchQueue_busy_run: "busy_run s (snd (fetchQueue remote options s))"
proof (cases "options = JNull")
  case True
  then show ?thesis by (simp add: emitted_update fetchQueue_null_run busy_run_def)
next
  case False
  then obtain params where b: "build_params (default_arg options (JObj [])) s = (Inr params, s)"
    using build_params_ok by blast
  show ?thesis
    by (simp add: emitted_update fetchQueue_run [OF b] busy_run_def split: outcome.splits)
qed

lemma fetchQueue_clears_first:
  "take 2 (emitted s (snd (fetchQueue remote options s))) = [SetLoading True, SetError JNull]"
proof (cases "options = JNull")
  case True
  then show ?thesis by (simp add: emitted_update fetchQueue_null_run)
next
  case False
  then obtain params where b: "build_params (default_arg options (JObj [])) s = (Inr params, s)"
    using build_params_ok by blast
  show ?thesis
    by (simp add: emitted_update fetchQueue_run [OF b] split: outcome.splits)
qed

lemma takeAction_busy_run: "busy_run s (snd (takeAction remote queueItemId action why memo s))"
  by (simp add: emitted_update takeAction_run fetchQueue_refresh_run Let_def busy_run_def emitted_def
        split: outcome.splits)

lemma bulkAction_busy_run: "busy_run s (snd (bulkAction remote itemIds act why s))"
  by (simp add: emitted_update bulkAction_run fetchQueue_refresh_run Let_def busy_run_def emitted_def
        split: outcome.splits)

lemma createFilter_busy_run: "busy_run s (snd (createFilter remote filterData s))"
  by (simp add: emitted_update createFilter_run fetchFilters_run Let_def busy_run_def emitted_def
        split: outcome.splits)


text \<open>
  Claim C1, as the code has it. Every one of the nine operations raises the busy flag
  first, calls the remote service only while the flag is up, lowers the flag last on
  every path, and issues a failure toast when its call rejects. Clearing the error before
  the call and setting it on failure is what \<^verbatim>\<open>fetchQueue\<close> does; the other eight
  operations have no \<^verbatim>\<open>setError\<close>.
\<close>

theorem operations_bracket_busy:
  "busy_run s (snd (fetchQueue remote options s))
   \<and> busy_run s (snd (analyzeContent remote content s))
   \<and> busy_run s (snd (takeAction remote queueItemId action why memo s))
   \<and> busy_run s (snd (bulkAction remote itemIds act why s))
   \<and> busy_run s (snd (fetchAppeals remote options s))
   \<and> busy_run s (snd (submitAppeal remote actionId why evidence s))
   \<and> busy_run s (snd (fetchFilters remote options s))
   \<and> busy_run s (snd (createFilter remote filterData s))
   \<and> busy_run s (snd (fetchStatistics remote startDate endDate s))
   \<and> take 2 (emitted s (snd (fetchQueue remote options s))) = [SetLoading True, SetError JNull]
   \<and> (build_params (default_arg options (JObj [])) s = (Inr params, s)
        \<and> api_getQueue remote params = Reject e
      \<longrightarrow> notified_failure s (snd (fetchQueue remote options s))
          \<and> \<not> nullish (error (snd (fetchQueue remote options s))))
   \<and> (api_analyze remote content = Reject e
      \<longrightarrow> notified_failure s (snd (analyzeContent remote content s)))
   \<and> (api_takeAction remote queueItemId
          (JObj [(''action'', JStr action), (''reason'', why),
                 (''notes'', default_arg memo (JStr []))]) = Reject e
      \<longrightarrow> notified_failure s (snd (takeAction remote queueItemId action why memo s)))
   \<and> (api_bulkAction remote
          (JObj [(''itemIds'', JArr itemIds), (''action'', act), (''reason'', why)]) = Reject e
      \<longrightarrow> notified_failure s (snd (bulkAction remote itemIds act why s)))
   \<and> (api_getAppeals remote (default_arg options (JObj [])) = Reject e
      \<longrightarrow> notified_failure s (snd (fetchAppeals remote options s)))
   \<and> (api_submitAppeal remote
          (JObj [(''actionId'', actionId), (''reason'', why),
                 (''evidence'', default_arg evidence (JArr []))]) = Reject e
      \<longrightarrow> notified_failure s (snd (submitAppeal remote actionId why evidence s)))
   \<and> (api_getFilters remote (default_arg options (JObj [])) = Reject e
      \<longrightarrow> notified_failure s (snd (fetchFilters remote options s)))
   \<and> (api_createFilter remote filterData = Reject e
      \<longrightarrow> notified_failure s (snd (createFilter remote filterData s)))
   \<and> (api_getStatistics remote (JObj [(''startDate'', startDate), (''endDate'', endDate)])
        = Reject e
      \<longrightarrow> notified_failure s (snd (fetchStatistics remote startDate endDate s)))"
proof (intro conjI impI)
  show "busy_run s (snd (fetchQueue remote options s))"
    by (rule fetchQueue_busy_run)
  show "busy_run s (snd (analyzeContent remote content s))"
    by (simp add: emitted_update analyzeContent_run busy_run_def split: outcome.splits)
  show "busy_run s (snd (takeAction remote queueItemId action why memo s))"
    by (rule takeAction_busy_run)
  show "busy_run s (snd (bulkAction remote itemIds act why s))"
    by (rule bulkAction_busy_run)
  show "busy_run s (snd (fetchAppeals remote options s))"
    by (simp add: emitted_update fetchAppeals_run busy_run_def split: outcome.splits)
  show "busy_run s (snd (submitAppeal remote actionId why evidence s))"
    by (simp add: emitted_update submitAppeal_run busy_run_def split: outcome.splits)
  show "busy_run s (snd (fetchFilters remote options s))"
    by (simp add: emitted_update fetchFilters_run busy_run_def split: outcome.splits)
  show "busy_run s (snd (createFilter remote filterData s))"
    by (rule createFilter_busy_run)
  show "busy_run s (snd (fetchStatistics remote startDate endDate s))"
    by (simp add: emitted_update fetchStatistics_run busy_run_def split: outcome.splits)
  show "take 2 (emitted s (snd (fetchQueue remote options s))) = [SetLoading True, SetError JNull]"
    by (rule fetchQueue_clears_first)
  show "notified_failure s (snd (fetchQueue remote options s))"
    if "build_params (default_arg options (JObj [])) s = (Inr params, s)
        \<and> api_getQueue remote params = Reject e"
    using that by (simp add: emitted_update fetchQueue_run [OF conjunct1 [OF that]] notified_failure_def)
  show "\<not> nullish (error (snd (fetchQueue remote options s)))"
    if "build_params (default_arg options (JObj [])) s = (Inr params, s)
        \<and> api_getQueue remote params = Reject e"
    using that
    by (simp add: emitted_update fetchQueue_run [OF conjunct1 [OF that]] truthy_js_or truthy_not_nullish)
  show "notified_failure s (snd (analyzeContent remote content s))"
    if "api_analyze remote content = Reject e"
    using that by (simp add: emitted_update analyzeContent_run notified_failure_def)
  show "notified_failure s (snd (takeAction remote queueItemId action why memo s))"
    if "api_takeAction remote queueItemId
          (JObj [(''action'', JStr action), (''reason'', why),
                 (''notes'', default_arg memo (JStr []))]) = Reject e"
    using that by (simp add: emitted_update takeAction_run notified_failure_def)
  show "notified_failure s (snd (bulkAction remote itemIds act why s))"
    if "api_bulkAction remote
          (JObj [(''itemIds'', JArr itemIds), (''action'', act), (''reason'', why)]) = Reject e"
    using that by (simp add: emitted_update bulkAction_run notified_failure_def)
  show "notified_failure s (snd (fetchAppeals remote options s))"
    if "api_getAppeals remote (default_arg options (JObj [])) = Reject e"
    using that by (simp add: emitted_update fetchAppeals_run notified_failure_def)
  show "notified_failure s (snd (submitAppeal remote actionId why evidence s))"
    if "api_submitAppeal remote
          (JObj [(''actionId'', actionId), (''reason'', why),
                 (''evidence'', default_arg evidence (JArr []))]) = Reject e"
    using that by (simp add: emitted_update submitAppeal_run notified_failure_def)
  show "notified_failure s (snd (fetchFilters remote options s))"
    if "api_getFilters remote (default_arg options (JObj [])) = Reject e"
    using that by (simp add: emitted_update fetchFilters_run notified_failure_def)
  show "notified_failure s (snd (createFilter remote filterData s))"
    if "api_createFilter remote filterData = Reject e"
    using that by (simp add: emitted_update createFilter_run notified_failure_def)
  show "notified_failure s (snd (fetchStatistics remote startDate endDate s))"
    if "api_getStatistics remote (JObj [(''startDate'', startDate), (''endDate'', endDate)])
        = Reject e"
    using that by (simp add: emitted_update fetchStatistics_run notified_failure_def)
qed

theorem operations_bracket_busy_witness:
  "build_params (default_arg JUndefined (JObj [])) initial = (Inr [], initial)
   \<and> api_getQueue (failing network_error) [] = Reject network_error
   \<and> busy_run initial (snd (fetchQueue (failing network_error) JUndefined initial))
   \<and> notified_failure initial (snd (fetchQueue (failing network_error) JUndefined initial))
   \<and> busy_run initial (snd (analyzeContent (failing network_error) (JStr ''text'') initial))
   \<and> notified_failure initial
        (snd (analyzeContent (failing network_error) (JStr ''text'') initial))
   \<and> notified_failure initial
        (snd (takeAction (failing network_error) (JNum 1) ''approve'' (JStr ''spam'') JUndefined
           initial))
   \<and> notified_failure initial
        (snd (bulkAction (failing network_error) [JNum 1, JNum 2] (JStr ''approve'')
           (JStr ''spam'') initial))
   \<and> notified_failure initial (snd (fetchAppeals (failing network_error) JUndefined initial))
   \<and> notified_failure initial
        (snd (submitAppeal (failing network_error) (JNum 5) (JStr ''spam'') JUndefined initial))
   \<and> notified_failure initial (snd (fetchFilters (failing network_error) JUndefined initial))
   \<and> notified_failure initial
        (snd (createFilter (failing network_error) (JObj [(''pattern'', JStr ''x'')]) initial))
   \<and> notified_failure initial
        (snd (fetchStatistics (failing network_error) JUndefined JUndefined initial))"
  using operations_bracket_busy [where remote = "failing network_error" and s = initial
      and options = JUndefined and params = "[]" and e = network_error
      and content = "JStr ''text''" and queueItemId = "JNum 1" and action = "''approve''"
      and why = "JStr ''spam''" and memo = JUndefined and itemIds = "[JNum 1, JNum 2]"
      and act = "JStr ''approve''" and actionId = "JNum 5" and evidence = JUndefined
      and filterData = "JObj [(''pattern'', JStr ''x'')]" and startDate = JUndefined
      and endDate = JUndefined]
  by (simp add: emitted_update failing_def refresh_params)

text \<open>
  Claim C1 as stated fails: \<^verbatim>\<open>analyzeContent\<close> with a rejecting call neither clears
  an error left by an earlier operation nor sets one. Its four effects are listed.
\<close>

theorem analyzeContent_ignores_error_counterexample:
  "error (snd (analyzeContent (failing network_error) (JStr ''text'')
       (initial\<lparr>error := JStr ''stale''\<rparr>))) = JStr ''stale''
   \<and> trace (snd (analyzeContent (failing network_error) (JStr ''text'')
       (initial\<lparr>error := JStr ''stale''\<rparr>))) =
       [SetLoading True, Analyze (JStr ''text''),
        ToastError (JStr ''Content analysis failed''), SetLoading False]"
  by (simp add: emitted_update analyzeContent_run failing_def initial_def)

section \<open>The query of \<^verbatim>\<open>fetchQueue\<close>\<close>

text \<open>
  Claim C7, as the code has it. For an options object, the query handed to
  \<^verbatim>\<open>getQueue\<close> holds, in this order, the fields among status, page, limit, category
  and priority whose value in the options is truthy, each with that value. A field that
  is absent, or present with a falsy value (0, the empty string, null, false), is left
  out, and no other field of the options, such as a date range, is ever taken.
\<close>

theorem fetchQueue_query_fields:
  "build_params (JObj kvs) s =
     (Inr (filter (\<lambda>(k, v). truthy v)
             (map (\<lambda>k. (k, own_prop (JObj kvs) k))
                [''status'', ''page'', ''limit'', ''category'', ''priority''])), s)
   \<and> (\<exists>post. trace (snd (fetchQueue remote (JObj kvs) s)) =
          trace s @ [SetLoading True, SetError JNull,
            GetQueue (filter (\<lambda>(k, v). truthy v)
               (map (\<lambda>k. (k, own_prop (JObj kvs) k))
                  [''status'', ''page'', ''limit'', ''category'', ''priority'']))] @ post)"
proof -
  define params where "params = filter (\<lambda>(k, v). truthy v)
             (map (\<lambda>k. (k, own_prop (JObj kvs) k))
                [''status'', ''page'', ''limit'', ''category'', ''priority''])"
  have b: "build_params (JObj kvs) s = (Inr params, s)"
    unfolding params_def by (simp only: build_params_run nullish.simps if_False)
  then have b': "build_params (default_arg (JObj kvs) (JObj [])) s = (Inr params, s)"
    by (simp add: default_arg_def)
  have "\<exists>post. trace (snd (fetchQueue remote (JObj kvs) s)) =
          trace s @ [SetLoading True, SetError JNull, GetQueue params] @ post"
    by (simp add: fetchQueue_run [OF b'] split: outcome.splits)
  with b show ?thesis
    unfolding params_def by blast
qed

theorem fetchQueue_query_fields_witness:
  "(\<exists>post. trace (snd (fetchQueue (failing network_error)
        (JObj [(''status'', JStr ''pending''), (''page'', JNum 0), (''limit'', JNum 20),
               (''startDate'', JStr ''2024-01-01'')]) initial)) =
      [SetLoading True, SetError JNull,
       GetQueue [(''status'', JStr ''pending''), (''limit'', JNum 20)]] @ post)"
  using fetchQueue_query_fields [of "[(''status'', JStr ''pending''), (''page'', JNum 0),
      (''limit'', JNum 20), (''startDate'', JStr ''2024-01-01'')]" initial "failing network_error"]
  by (simp add: initial_def)

text \<open>
  Claim C7 as stated fails: in the options \<^verbatim>\<open>{status: "pending", page: 0}\<close> the field
  page is present, and the query holds status alone.
\<close>

theorem fetchQueue_query_fields_counterexample:
  "own_prop (JObj [(''status'', JStr ''pending''), (''page'', JNum 0)]) ''page'' = JNum 0
   \<and> trace (snd (fetchQueue (failing network_error)
        (JObj [(''status'', JStr ''pending''), (''page'', JNum 0)]) initial)) =
      [SetLoading True, SetError JNull, GetQueue [(''status'', JStr ''pending'')],
       SetError (JStr ''Network Error''), ToastError (JStr ''Failed to fetch moderation queue''),
       SetLoading False]"
proof -
  have b: "build_params (default_arg (JObj [(''status'', JStr ''pending''), (''page'', JNum 0)])
       (JObj [])) initial = (Inr [(''status'', JStr ''pending'')], initial)"
    by (simp add: build_params_run default_arg_def)
  show ?thesis
    unfolding fetchQueue_run [OF b]
    by (simp add: failing_def initial_def network_error_def opt_get_def js_or_def)
qed

section \<open>The report-listing adapter\<close>

text \<open>
  Claim C8. With upstream filters \<^verbatim>\<open>{status: "pending"}\<close> the adapter's
  \<^verbatim>\<open>filters.contentType\<close> is \<^verbatim>\<open>"all"\<close> and its \<^verbatim>\<open>filters.status\<close> is
  \<^verbatim>\<open>"pending"\<close>; \<^verbatim>\<open>pagination.hasMore\<close> is false in every state; and
  \<^verbatim>\<open>applyFilters({status: "resolved"})\<close> and \<^verbatim>\<open>clearFilters\<close> return with the
  state (hence \<^verbatim>\<open>reports\<close> and \<^verbatim>\<open>filters\<close>) unchanged.
\<close>

theorem useReports_contract:
  assumes "filters m = JObj [(''status'', JStr ''pending'')]"
  shows "contentType (view_filters (useReports m)) = JStr ''all''
     \<and> status (view_filters (useReports m)) = JStr ''pending''
     \<and> hasMore (view_pagination (useReports m')) = False
     \<and> applyFilters (JObj [(''status'', JStr ''resolved'')]) m' = (Inr (), m')
     \<and> clearFilters m' = (Inr (), m')
     \<and> reports (useReports (snd (applyFilters (JObj [(''status'', JStr ''resolved'')]) m')))
         = reports (useReports m')
     \<and> view_filters (useReports (snd (applyFilters (JObj [(''status'', JStr ''resolved'')]) m')))
         = view_filters (useReports m')
     \<and> reports (useReports (snd (clearFilters m'))) = reports (useReports m')
     \<and> view_filters (useReports (snd (clearFilters m'))) = view_filters (useReports m')"
  using assms
  by (simp add: useReports_def applyFilters_def clearFilters_def ret_def Let_def opt_get_def
        js_coalesce_def)

theorem useReports_contract_witness:
  "filters (initial\<lparr>filters := JObj [(''status'', JStr ''pending'')]\<rparr>)
     = JObj [(''status'', JStr ''pending'')]
   \<and> view_filters (useReports (initial\<lparr>filters := JObj [(''status'', JStr ''pending'')]\<rparr>))
     = \<lparr>status = JStr ''pending'', contentType = JStr ''all'', reason = JStr ''all'',
        sortBy = JStr ''recent''\<rparr>
   \<and> hasMore (view_pagination (useReports initial)) = False
   \<and> snd (applyFilters (JObj [(''status'', JStr ''resolved'')])
        (initial\<lparr>filters := JObj [(''status'', JStr ''pending'')]\<rparr>))
     = initial\<lparr>filters := JObj [(''status'', JStr ''pending'')]\<rparr>"
proof -
  let ?m = "initial\<lparr>filters := JObj [(''status'', JStr ''pending'')]\<rparr>"
  have h: "filters ?m = JObj [(''status'', JStr ''pending'')]"
    by simp
  have rest: "reason (view_filters (useReports ?m)) = JStr ''all''"
    "sortBy (view_filters (useReports ?m)) = JStr ''recent''"
    by (simp_all add: useReports_def opt_get_def js_coalesce_def)
  show ?thesis
    using h rest useReports_contract [OF h, of initial]
      useReports_contract [OF h, of ?m]
    by (cases "view_filters (useReports ?m)") simp
qed

end
